theory Spec2Isabelle
  imports Complex_Main "HOL-Library.Signed_Division"
begin

section \<open>Locations (actions/location.go)\<close>

definition Falkenstein :: string where
  "Falkenstein = ''b134d679-8697-4dc6-b629-c4c189392fca''"

definition Helsinki :: string where
  "Helsinki = ''7fc5b17c-eddf-413f-8b37-9d36eb5e33ec''"

text \<open>
  Of the API client's location value only the identifier is read here; \<open>GetId\<close> is the
  generated getter, which returns the field of a value that is not nil.
\<close>

record Location =
  LocId :: string

definition GetId :: "Location \<Rightarrow> string" where
  "GetId location = LocId location"

text \<open>
  The \<open>switch\<close> of the source, case by case and in its order: the two free locations,
  then the empty identifier, then the fall-through \<open>return true\<close>.
\<close>

definition IsPremiumLocation :: "Location \<Rightarrow> bool" where
  "IsPremiumLocation location =
     (let i = GetId location in
      if i = Helsinki \<or> i = Falkenstein then False
      else if i = [] then True
      else True)"

section \<open>Time values of the standard library\<close>

text \<open>
  An instant is its number of nanoseconds since the epoch and a \<open>Duration\<close> is a number of
  nanoseconds, as in package \<open>time\<close>. \<open>Sub\<close> saturates at the least and the greatest
  \<open>Duration\<close>. \<open>Hours\<close> and \<open>Minutes\<close> are the library's formulas (quotient and
  remainder truncated towards zero, then one floating-point division and one addition);
  the \<open>float64\<close> results are taken as the exact rationals. At the durations evaluated
  below (whole hours) the floating-point operations are exact.
\<close>

type_synonym Time = int
type_synonym Duration = int

definition Minute :: Duration where
  "Minute = 60 * 1000000000"

definition Hour :: Duration where
  "Hour = 60 * Minute"

definition minDuration :: Duration where
  "minDuration = - (2 ^ 63)"

definition maxDuration :: Duration where
  "maxDuration = 2 ^ 63 - 1"

definition After :: "Time \<Rightarrow> Time \<Rightarrow> bool" where
  "After t u = (u < t)"

definition Sub :: "Time \<Rightarrow> Time \<Rightarrow> Duration" where
  "Sub t u =
     (let d = t - u in
      if minDuration \<le> d \<and> d \<le> maxDuration then d
      else if t < u then minDuration
      else maxDuration)"

definition Hours :: "Duration \<Rightarrow> rat" where
  "Hours d = of_int (d sdiv Hour) + of_int (d smod Hour) / (60 * 60 * 1000000000)"

definition Minutes :: "Duration \<Rightarrow> rat" where
  "Minutes d = of_int (d sdiv Minute) + of_int (d smod Minute) / (60 * 1000000000)"

text \<open>The conversion of a floating-point value to an integer type drops the fraction.\<close>

definition trunc :: "rat \<Rightarrow> int" where
  "trunc q = (if q < 0 then - \<lfloor>- q\<rfloor> else \<lfloor>q\<rfloor>)"

section \<open>The entitlement check of \<open>state up\<close> (main.go)\<close>

definition location_unavailable_msg :: string where
  "location_unavailable_msg =
     ''The location you were using is now unavailable, as your paid subscription has ended.''"

definition session_over_msg :: string where
  "session_over_msg = ''Your 30-minute session is over.''"

definition keep_using_msg :: string where
  "keep_using_msg =
     ''You can keep using ForestVPN once you watch an ad in our mobile app, or simply go Premium at https://forestvpn.com/checkout/.''"

definition five_minutes_msg :: string where
  "five_minutes_msg = ''You currently have less than 5 minutes of free trial left.''"

definition three_days_msg :: string where
  "three_days_msg = ''Your premium subscription will end in less than 3 days.''"

text \<open>
  The part of the action between reading the billing feature and bringing the state up.
  It returns the lines printed and how control leaves: \<open>Exit n\<close> is \<open>os.Exit(n)\<close>,
  \<open>CallSetUp\<close> is reaching \<open>state.SetUp\<close>, the only place of the action that sends the
  bring-up request.
\<close>

datatype flow = Exit int | CallSetUp

definition state_up_check :: "string \<Rightarrow> Location \<Rightarrow> Time \<Rightarrow> Time \<Rightarrow> string list \<times> flow" where
  "state_up_check bid location now expiry =
     (let left = Sub expiry now;
          days = trunc (Hours left / 24)
      in
      if After now expiry then
        (if IsPremiumLocation location \<and> bid = ''com.forestvpn.premium''
         then ([location_unavailable_msg, keep_using_msg], Exit 1)
         else ([session_over_msg, keep_using_msg], Exit 1))
      else if bid = ''com.forestvpn.freemium'' \<and> trunc (Minutes left) < 5
        then ([five_minutes_msg], CallSetUp)
      else if days = 3 \<and> Hours left = 0 \<or> days < 3 \<and> bid = ''com.forestvpn.premium''
        then ([three_days_msg], CallSetUp)
      else ([], CallSetUp))"

section \<open>Library functions the daemon calls\<close>

subsection \<open>\<open>strings.Fields\<close>, \<open>strings.Contains\<close>, \<open>strings.Join\<close>\<close>

text \<open>
  A Go string is a sequence of bytes, here a \<open>string\<close>. \<open>strings.Fields\<close> splits around
  runs of white space as \<open>unicode.IsSpace\<close> defines it: six ASCII characters and the
  code points U+0085, U+00A0, U+1680, U+2000 to U+200A, U+2028, U+2029, U+202F, U+205F and
  U+3000, met in the string as their UTF-8 encodings.
\<close>

definition asciiSpace :: "char \<Rightarrow> bool" where
  "asciiSpace c = (c = CHR 0x09 \<or> c = CHR 0x0A \<or> c = CHR 0x0B \<or> c = CHR 0x0C
                   \<or> c = CHR 0x0D \<or> c = CHR 0x20)"

definition unicodeSpaces :: "string list" where
  "unicodeSpaces =
     [[CHR 0xC2, CHR 0x85], [CHR 0xC2, CHR 0xA0], [CHR 0xE1, CHR 0x9A, CHR 0x80],
      [CHR 0xE2, CHR 0x80, CHR 0x80], [CHR 0xE2, CHR 0x80, CHR 0x81],
      [CHR 0xE2, CHR 0x80, CHR 0x82], [CHR 0xE2, CHR 0x80, CHR 0x83],
      [CHR 0xE2, CHR 0x80, CHR 0x84], [CHR 0xE2, CHR 0x80, CHR 0x85],
      [CHR 0xE2, CHR 0x80, CHR 0x86], [CHR 0xE2, CHR 0x80, CHR 0x87],
      [CHR 0xE2, CHR 0x80, CHR 0x88], [CHR 0xE2, CHR 0x80, CHR 0x89],
      [CHR 0xE2, CHR 0x80, CHR 0x8A], [CHR 0xE2, CHR 0x80, CHR 0xA8],
      [CHR 0xE2, CHR 0x80, CHR 0xA9], [CHR 0xE2, CHR 0x80, CHR 0xAF],
      [CHR 0xE2, CHR 0x81, CHR 0x9F], [CHR 0xE3, CHR 0x80, CHR 0x80]]"

text \<open>The number of bytes of the white-space character at the head of a string, 0 if none.\<close>

definition spaceWidth :: "string \<Rightarrow> nat" where
  "spaceWidth s =
     (case s of
        [] \<Rightarrow> 0
      | c # _ \<Rightarrow>
          if asciiSpace c then 1
          else (case find (\<lambda>p. take (length p) s = p) unicodeSpaces of
                  Some p \<Rightarrow> length p
                | None \<Rightarrow> 0))"

text \<open>
  \<open>fieldsFrom skip cur s\<close> scans \<open>s\<close> with the field under construction \<open>cur\<close>;
  \<open>skip\<close> counts the bytes left of a white-space character already recognised.
\<close>

fun fieldsFrom :: "nat \<Rightarrow> string \<Rightarrow> string \<Rightarrow> string list" where
  "fieldsFrom skip cur [] = (if cur = [] then [] else [cur])"
| "fieldsFrom skip cur (c # cs) =
     (if 0 < skip then fieldsFrom (skip - 1) cur cs
      else if 0 < spaceWidth (c # cs)
        then (if cur = [] then [] else [cur]) @ fieldsFrom (spaceWidth (c # cs) - 1) [] cs
      else fieldsFrom 0 (cur @ [c]) cs)"

definition Fields :: "string \<Rightarrow> string list" where
  "Fields s = fieldsFrom 0 [] s"

fun Contains :: "string \<Rightarrow> string \<Rightarrow> bool" where
  "Contains [] substr = (substr = [])"
| "Contains (c # cs) substr = (take (length substr) (c # cs) = substr \<or> Contains cs substr)"

definition Join :: "string list \<Rightarrow> string \<Rightarrow> string" where
  "Join elems sep = (case elems of [] \<Rightarrow> [] | e # es \<Rightarrow> e @ concat (map (\<lambda>x. sep @ x) es))"

subsection \<open>The verb \<open>%c\<close> of \<open>fmt.Sprintf\<close>\<close>

text \<open>
  \<open>%c\<close> prints an integer as the UTF-8 encoding of the code point of that number; a number
  that is no code point (negative, above U+10FFFF, or a surrogate) is printed as U+FFFD.
\<close>

definition fmtC :: "int \<Rightarrow> string" where
  "fmtC c =
     (let r = (if c < 0 \<or> 0x10FFFF < c \<or> (0xD800 \<le> c \<and> c \<le> 0xDFFF) then 0xFFFD else c) in
      if r \<le> 0x7F then [char_of r]
      else if r \<le> 0x7FF then [char_of (0xC0 + r div 64), char_of (0x80 + r mod 64)]
      else if r \<le> 0xFFFF then
        [char_of (0xE0 + r div 4096), char_of (0x80 + r div 64 mod 64), char_of (0x80 + r mod 64)]
      else
        [char_of (0xF0 + r div 262144), char_of (0x80 + r div 4096 mod 64),
         char_of (0x80 + r div 64 mod 64), char_of (0x80 + r mod 64)])"

subsection \<open>\<open>exec.Cmd\<close>\<close>

text \<open>
  What the operating system does with a command that is started: it cannot be started,
  it runs and ends with an exit status (\<open>ExitStatus()\<close>: 0 for success, -1 when a signal
  ended it), or waiting for it fails.
\<close>

datatype proc = CannotStart string | Finished int | WaitFails string

text \<open>
  A \<open>Cmd\<close> holds its arguments and whether it has been started (\<open>Process\<close> is set) and
  waited for (\<open>ProcessState\<close> is set). \<open>Start\<close> refuses a command already started;
  \<open>Wait\<close> refuses one that was not started or was already waited for. A process that
  did not succeed makes \<open>Wait\<close> return an \<open>ExitError\<close>, which carries the status.
\<close>

record Cmd =
  Args :: "string list"
  Process :: bool
  ProcessState :: bool

definition Command :: "string \<Rightarrow> string list \<Rightarrow> Cmd" where
  "Command name arg = \<lparr>Args = name # arg, Process = False, ProcessState = False\<rparr>"

datatype wait_error = ExitError "int option" | OtherError string

definition Start :: "proc \<Rightarrow> Cmd \<Rightarrow> string option \<times> Cmd" where
  "Start p c =
     (if Process c then (Some ''exec: already started'', c)
      else (case p of
              CannotStart e \<Rightarrow> (Some e, c)
            | _ \<Rightarrow> (None, c\<lparr>Process := True\<rparr>)))"

definition Wait :: "proc \<Rightarrow> Cmd \<Rightarrow> wait_error option \<times> Cmd" where
  "Wait p c =
     (if \<not> Process c then (Some (OtherError ''exec: not started''), c)
      else if ProcessState c then (Some (OtherError ''exec: Wait was already called''), c)
      else (case p of
              Finished n \<Rightarrow>
                ((if n = 0 then None else Some (ExitError (Some n))), c\<lparr>ProcessState := True\<rparr>)
            | WaitFails e \<Rightarrow> (Some (OtherError e), c)
            | CannotStart e \<Rightarrow> (Some (OtherError e), c)))"

section \<open>The daemon (forestd/main.go)\<close>

text \<open>
  What a handler does that can be seen from outside, in order. Of the lines it logs, those
  that report an error are kept.
\<close>

datatype event =
    LogErr string
  | StartProcess "string list"
  | WgShow
  | WriteFrame string
  | CloseConn

subsection \<open>\<open>execute\<close> and \<open>isActiveWireGuard\<close>\<close>

text \<open>
  \<open>execute\<close> returns the status, the events and the command as the calls left it. The
  inner type assertion on \<open>exiterr.Sys()\<close> is the \<open>option\<close> of \<open>ExitError\<close>.
\<close>

definition execute :: "proc \<Rightarrow> Cmd \<Rightarrow> int \<times> event list \<times> Cmd" where
  "execute p command =
     (let (serr, c1) = Start p command;
          ev1 = (case serr of Some e \<Rightarrow> [LogErr e] | None \<Rightarrow> [StartProcess (Args c1)]);
          (werr, c2) = Wait p c1
      in case werr of
           None \<Rightarrow> (0, ev1, c2)
         | Some (ExitError (Some status)) \<Rightarrow> (status, ev1, c2)
         | Some (ExitError None) \<Rightarrow> (0, ev1, c2)
         | Some (OtherError e) \<Rightarrow> (0, ev1 @ [LogErr e], c2))"

text \<open>The argument is the standard output of \<open>wg show\<close>; its error is dropped.\<close>

definition isActiveWireGuard :: "string \<Rightarrow> int" where
  "isActiveWireGuard stdout = (if 0 < length stdout then 1 else 0)"

subsection \<open>\<open>handleRequest\<close>\<close>

text \<open>
  The variables of \<open>handleRequest\<close> that live across iterations of its loop.
\<close>

record handler =
  command :: "Cmd option"
  knownActions :: "string list"
  status :: int
  config :: string

definition new_handler :: handler where
  "new_handler = \<lparr>command = None, knownActions = [], status = 0, config = []\<rparr>"

text \<open>
  The functions \<open>Read\<close> and \<open>Write\<close> and the constants \<open>QUIT_SIGN\<close> and \<open>DELIMITER\<close>
  are declared outside the files at hand. The constants are parameters of the model, the
  result of each \<open>Read\<close> (a content and an error or none) is an input, and a call of
  \<open>Write\<close> is the event \<open>WriteFrame\<close> with the string passed. An error is of one of two
  kinds, a frame that cannot be decoded or a failure of the connection, and carries its
  text; the handler reads only the text.
\<close>

datatype error = DecodeError string | IOError string

fun Error :: "error \<Rightarrow> string" where
  "Error (DecodeError msg) = msg"
| "Error (IOError msg) = msg"

text \<open>
  What the surroundings answer during one iteration: the fate of a process started, the
  standard output of \<open>wg show\<close>, the error of \<open>Write\<close>.
\<close>

record world =
  os_run :: proc
  wg_show :: string
  write_err :: "error option"

datatype panic = IndexOutOfRange | NilDereference

text \<open>
  The first half of the loop body, up to the point where an external process would be
  started: the read error is logged, the sentinel ends the loop, the content is split
  and the branch is chosen. Indexing the empty slice panics; so does
  \<open>command.String()\<close> on the nil pointer.
\<close>

datatype decision =
    Quit
  | Crash panic
  | RunCommand handler Cmd
  | QueryStatus handler
  | Reject handler

definition decide :: "string \<Rightarrow> handler \<Rightarrow> string \<times> error option \<Rightarrow> event list \<times> decision" where
  "decide QUIT_SIGN h rd =
     (let content = fst rd;
          ev0 = (case snd rd of Some e \<Rightarrow> [LogErr (Error e)] | None \<Rightarrow> [])
      in
      if content = QUIT_SIGN then (ev0, Quit)
      else
        let known = knownActions h @ [''connect'', ''disconnect''];
            request = Fields content;
            h1 = h\<lparr>knownActions := known\<rparr>
        in case request of
             [] \<Rightarrow> (ev0, Crash IndexOutOfRange)
           | action # _ \<Rightarrow>
               if 1 < length request \<and> Contains (Join known []) action then
                 let h2 = h1\<lparr>config := request ! 1\<rparr>;
                     cmd = (if action = known ! 0
                              then Some (Command ''wg-quick'' [''up'', config h2])
                            else if action = known ! 1
                              then Some (Command ''wg-quick'' [''down'', config h2])
                            else command h2)
                 in (case cmd of
                       None \<Rightarrow> (ev0, Crash NilDereference)
                     | Some c \<Rightarrow> (ev0, RunCommand h2 c))
               else if action = ''status'' then (ev0, QueryStatus h1)
               else (ev0, Reject h1))"

text \<open>The end of the loop body: the response is formatted and written.\<close>

definition respond :: "int \<Rightarrow> world \<Rightarrow> handler \<Rightarrow> int \<Rightarrow> event list \<times> handler" where
  "respond DELIMITER w h st =
     (let response = fmtC st @ fmtC DELIMITER in
      (WriteFrame response # (case write_err w of Some e \<Rightarrow> [LogErr (Error e)] | None \<Rightarrow> []),
       h\<lparr>status := st\<rparr>))"

datatype outcome = Break | Panic panic | Next handler

definition iteration ::
  "string \<Rightarrow> int \<Rightarrow> world \<Rightarrow> handler \<Rightarrow> string \<times> error option \<Rightarrow> event list \<times> outcome" where
  "iteration QUIT_SIGN DELIMITER w h rd =
     (case decide QUIT_SIGN h rd of
        (ev, Quit) \<Rightarrow> (ev, Break)
      | (ev, Crash p) \<Rightarrow> (ev, Panic p)
      | (ev, RunCommand h' c) \<Rightarrow>
          (let (st, ev1, c') = execute (os_run w) c;
               (ev2, h'') = respond DELIMITER w (h'\<lparr>command := Some c'\<rparr>) st
           in (ev @ ev1 @ ev2, Next h''))
      | (ev, QueryStatus h') \<Rightarrow>
          (let (ev2, h'') = respond DELIMITER w h' (isActiveWireGuard (wg_show w))
           in (ev @ [WgShow] @ ev2, Next h''))
      | (ev, Reject h') \<Rightarrow>
          (let (ev2, h'') = respond DELIMITER w h' (- 1)
           in (ev @ ev2, Next h'')))"

text \<open>
  The loop over the frames a connection delivers. The deferred \<open>conn.Close()\<close> runs when
  the loop is left, by \<open>break\<close> or by a panic; a panic then ends the daemon. When the
  frames given are used up the handler is waiting in \<open>Read\<close>.
\<close>

datatype ending = Returned | Panicked panic | Reading handler

fun serve ::
  "string \<Rightarrow> int \<Rightarrow> handler \<Rightarrow> (world \<times> string \<times> error option) list \<Rightarrow> event list \<times> ending" where
  "serve QUIT_SIGN DELIMITER h [] = ([], Reading h)"
| "serve QUIT_SIGN DELIMITER h ((w, rd) # rest) =
     (case iteration QUIT_SIGN DELIMITER w h rd of
        (ev, Break) \<Rightarrow> (ev @ [CloseConn], Returned)
      | (ev, Panic p) \<Rightarrow> (ev @ [CloseConn], Panicked p)
      | (ev, Next h') \<Rightarrow>
          (let (ev', e) = serve QUIT_SIGN DELIMITER h' rest in (ev @ ev', e)))"

definition handleRequest ::
  "string \<Rightarrow> int \<Rightarrow> (world \<times> string \<times> error option) list \<Rightarrow> event list \<times> ending" where
  "handleRequest QUIT_SIGN DELIMITER frames = serve QUIT_SIGN DELIMITER new_handler frames"

subsection \<open>The connections of the daemon\<close>

text \<open>
  \<open>main\<close> accepts connections and runs \<open>go handleRequest(conn)\<close> for each. The handlers
  share no variable and the file has no lock. A handler is waiting in \<open>Read\<close>, or it is
  inside \<open>execute\<close> with a process started, or it has returned. The daemon moves when a
  connection is accepted, when a frame reaches a handler waiting in \<open>Read\<close>, and when the
  process of a handler ends. A panic in any handler ends the whole daemon.
\<close>

datatype phase =
    Awaiting handler
  | Executing world handler "string \<times> error option"
  | Gone

datatype daemon = Serving "phase list" | Down panic

datatype move =
    Accept
  | Deliver nat world "string \<times> error option"
  | Ends nat

definition finish ::
  "string \<Rightarrow> int \<Rightarrow> phase list \<Rightarrow> nat \<Rightarrow> world \<Rightarrow> handler \<Rightarrow> string \<times> error option \<Rightarrow> daemon" where
  "finish QUIT_SIGN DELIMITER cs i w h rd =
     (case snd (iteration QUIT_SIGN DELIMITER w h rd) of
        Break \<Rightarrow> Serving (cs[i := Gone])
      | Panic p \<Rightarrow> Down p
      | Next h' \<Rightarrow> Serving (cs[i := Awaiting h']))"

text \<open>A move that the state does not allow leaves the state as it is.\<close>

definition daemon_step :: "string \<Rightarrow> int \<Rightarrow> daemon \<Rightarrow> move \<Rightarrow> daemon" where
  "daemon_step QUIT_SIGN DELIMITER s m =
     (case s of
        Down p \<Rightarrow> Down p
      | Serving cs \<Rightarrow>
          (case m of
             Accept \<Rightarrow> Serving (cs @ [Awaiting new_handler])
           | Deliver i w rd \<Rightarrow>
               (if i < length cs then
                  (case cs ! i of
                     Awaiting h \<Rightarrow>
                       (case snd (decide QUIT_SIGN h rd) of
                          RunCommand h' c \<Rightarrow>
                            (if fst (Start (os_run w) c) = None
                             then Serving (cs[i := Executing w h rd])
                             else finish QUIT_SIGN DELIMITER cs i w h rd)
                        | _ \<Rightarrow> finish QUIT_SIGN DELIMITER cs i w h rd)
                   | _ \<Rightarrow> s)
                else s)
           | Ends i \<Rightarrow>
               (if i < length cs then
                  (case cs ! i of
                     Executing w h rd \<Rightarrow> finish QUIT_SIGN DELIMITER cs i w h rd
                   | _ \<Rightarrow> s)
                else s)))"

definition daemon_run :: "string \<Rightarrow> int \<Rightarrow> move list \<Rightarrow> daemon" where
  "daemon_run QUIT_SIGN DELIMITER ms = foldl (daemon_step QUIT_SIGN DELIMITER) (Serving []) ms"

text \<open>The connections whose handler has a bring-up or bring-down process running.\<close>

fun executing :: "phase \<Rightarrow> bool" where
  "executing (Executing w h rd) = True"
| "executing _ = False"

definition in_flight :: "daemon \<Rightarrow> nat list" where
  "in_flight s =
     (case s of
        Serving cs \<Rightarrow> filter (\<lambda>i. executing (cs ! i)) [0..<length cs]
      | Down p \<Rightarrow> [])"

subsection \<open>Observations on the events\<close>

text \<open>The strings passed to \<open>Write\<close>, in order.\<close>

fun frames_written :: "event list \<Rightarrow> string list" where
  "frames_written [] = []"
| "frames_written (WriteFrame s # ev) = s # frames_written ev"
| "frames_written (_ # ev) = frames_written ev"

section \<open>Theorems\<close>

text \<open>
  C10. \<open>IsPremiumLocation\<close> is false exactly for the Helsinki and the Falkenstein
  identifier; every other location is premium, the one with the empty identifier included.
\<close>

theorem IsPremiumLocation_iff:
  "(IsPremiumLocation location = False) = (GetId location = Helsinki \<or> GetId location = Falkenstein)
   \<and> IsPremiumLocation \<lparr>LocId = []\<rparr> = True"
  by (simp add: IsPremiumLocation_def GetId_def Let_def Helsinki_def Falkenstein_def)

text \<open>
  C4. When the current time is strictly after the expiry, the check denies the bring-up:
  with a premium location and the premium bundle it prints the location-unavailable
  reason, otherwise the session-over reason; in both cases the process exits with code 1
  and \<open>state.SetUp\<close> is not reached.
\<close>

theorem state_up_check_expired:
  assumes "expiry < now"
  shows "state_up_check bid location now expiry =
           ((if IsPremiumLocation location \<and> bid = ''com.forestvpn.premium''
             then [location_unavailable_msg, keep_using_msg]
             else [session_over_msg, keep_using_msg]), Exit 1)
         \<and> snd (state_up_check bid location now expiry) \<noteq> CallSetUp
         \<and> snd (state_up_check bid location now expiry) \<noteq> Exit 0"
  using assms by (simp add: state_up_check_def After_def Let_def)

theorem state_up_check_expired_witness:
  "(5::int) < 10
   \<and> state_up_check ''com.forestvpn.premium'' \<lparr>LocId = ''x''\<rparr> 10 5
       = ([location_unavailable_msg, keep_using_msg], Exit 1)
   \<and> state_up_check ''com.forestvpn.freemium'' \<lparr>LocId = ''x''\<rparr> 10 5
       = ([session_over_msg, keep_using_msg], Exit 1)"
proof -
  have h: "(5::int) < 10" by simp
  have p: "IsPremiumLocation \<lparr>LocId = ''x''\<rparr>"
    by (simp add: IsPremiumLocation_def GetId_def Let_def Helsinki_def Falkenstein_def)
  show ?thesis
    using h p
      state_up_check_expired [OF h, of "''com.forestvpn.premium''" "\<lparr>LocId = ''x''\<rparr>"]
      state_up_check_expired [OF h, of "''com.forestvpn.freemium''" "\<lparr>LocId = ''x''\<rparr>"]
    by simp
qed

text \<open>
  C5. At the failing input, the premium bundle with exactly three days (72 hours) left,
  the check reaches \<open>state.SetUp\<close> and prints nothing: the disjunct
  \<open>days == 3 && left.Hours() == 0\<close> is false there, since \<open>left.Hours()\<close> is 72.
  With exactly two days left the premium bundle gets the warning.
\<close>

theorem state_up_check_three_days:
  "state_up_check ''com.forestvpn.premium'' \<lparr>LocId = ''x''\<rparr> 0 (72 * Hour) = ([], CallSetUp)
   \<and> state_up_check ''com.forestvpn.premium'' \<lparr>LocId = ''x''\<rparr> 0 (48 * Hour)
       = ([three_days_msg], CallSetUp)"
  by (simp add: state_up_check_def After_def Sub_def Hours_def Minutes_def trunc_def Let_def
      Hour_def Minute_def minDuration_def maxDuration_def signed_divide_int_def
      signed_modulo_int_def)


subsection \<open>The daemon\<close>

lemma decide_log:
  "decide q h (content, Some e) =
     (LogErr (Error e) # fst (decide q h (content, None)), snd (decide q h (content, None)))"
  by (simp add: decide_def Let_def split: list.split option.split)

lemma frames_written_append: "frames_written (a @ b) = frames_written a @ frames_written b"
  by (induction a rule: frames_written.induct) auto

lemma frames_written_decide: "frames_written (fst (decide q h rd)) = []"
  by (auto simp add: decide_def Let_def split: list.split option.split)

lemma frames_written_execute: "frames_written (fst (snd (execute p c))) = []"
  by (auto simp add: execute_def Start_def Wait_def Let_def
      split: prod.split option.split wait_error.split proc.split if_split)

lemma frames_written_respond:
  "frames_written (fst (respond d w h st)) = [fmtC st @ fmtC d]"
  "status (snd (respond d w h st)) = st"
  by (auto simp add: respond_def Let_def split: option.split)

lemma fmtC_one_byte: "0 \<le> st \<Longrightarrow> st \<le> 127 \<Longrightarrow> fmtC st = [char_of st]"
  by (simp add: fmtC_def Let_def)

lemma in_flight_update_executing:
  assumes "i < length cs"
  shows "set (in_flight (Serving (cs[i := Executing w h rd])))
           = insert i (set (in_flight (Serving cs)))"
  using assms by (auto simp add: in_flight_def nth_list_update)

lemma in_flight_update_awaiting:
  assumes "i < length cs" and "cs ! i = Awaiting h"
  shows "set (in_flight (Serving (cs[i := Awaiting h'']))) = set (in_flight (Serving cs))"
  using assms by (auto simp add: in_flight_def nth_list_update)

lemma Fields_con_cfg: "Fields ''con cfg'' = [''con'', ''cfg'']"
  by code_simp

lemma Contains_con: "Contains ''connectdisconnect'' ''con''"
  by code_simp

text \<open>
  C2. At the failing input, the frame \<open>con cfg\<close> as the first frame of a connection, the
  handler does not answer -1: \<open>con\<close> is contained in the joined verb names and a second
  token is present, so the branch of the mutating verbs is taken; the verb equals neither
  name, \<open>command\<close> is still nil, and \<open>command.String()\<close> panics.
\<close>

theorem unknown_verb_crash:
  assumes "q \<noteq> ''con cfg''"
  shows "handleRequest q d [(w, ''con cfg'', None)] = ([CloseConn], Panicked NilDereference)"
  using assms
  by (simp add: handleRequest_def iteration_def decide_def new_handler_def Let_def
      Fields_con_cfg Contains_con Join_def)

theorem unknown_verb_crash_witness:
  "''quit'' \<noteq> ''con cfg''
   \<and> handleRequest ''quit'' 10 [(\<lparr>os_run = Finished 0, wg_show = [], write_err = None\<rparr>, ''con cfg'', None)]
       = ([CloseConn], Panicked NilDereference)"
proof -
  have h: "''quit'' \<noteq> ''con cfg''" by simp
  show ?thesis
    using h unknown_verb_crash [OF h, of 10 "\<lparr>os_run = Finished 0, wg_show = [], write_err = None\<rparr>"]
    by simp
qed

text \<open>
  C3, counterexample to the claim as stated. When the lifecycle tool exits with code 2 the
  frame written is the byte 2 and the delimiter: the payload is one byte outside
  \<open>{0, 1, 255}\<close>. For a frame rejected the payload is the three bytes of U+FFFD, not the
  byte 255.
\<close>

theorem exit_status_passed_on:
  "map (map of_char)
     (frames_written (fst (handleRequest ''quit'' 10
        [(\<lparr>os_run = Finished 2, wg_show = [], write_err = None\<rparr>, ''connect cfg'', None)])))
     = [[2, 10 :: nat]]
   \<and> map (map of_char)
     (frames_written (fst (handleRequest ''quit'' 10
        [(\<lparr>os_run = Finished 0, wg_show = [], write_err = None\<rparr>, ''restart'', None)])))
     = [[239, 191, 189, 10 :: nat]]"
  by code_simp

text \<open>
  C3, as amended. An iteration that goes on to the next frame has written exactly one
  frame, the status printed with \<open>%c\<close> followed by the delimiter; the payload is the one
  byte of that value when the status is between 0 and 127. The status is that of
  \<open>execute\<close> for a bring-up or bring-down, 0 or 1 for a status query and -1 for a frame
  rejected; \<open>execute\<close> returns the exit status of the tool as it is.
\<close>

theorem response_frame:
  assumes "iteration q d w h rd = (ev, Next h')"
  shows "frames_written ev = [fmtC (status h') @ fmtC d]
       \<and> (0 \<le> status h' \<and> status h' \<le> 127 \<longrightarrow> fmtC (status h') = [char_of (status h')])
       \<and> (case snd (decide q h rd) of
            RunCommand h1 c \<Rightarrow> status h' = fst (execute (os_run w) c)
          | QueryStatus h1 \<Rightarrow>
              status h' = isActiveWireGuard (wg_show w) \<and> (status h' = 0 \<or> status h' = 1)
          | Reject h1 \<Rightarrow> status h' = - 1
          | _ \<Rightarrow> False)
       \<and> fst (execute (Finished n) (Command name arg)) = n"
proof -
  obtain e0 dc where dc: "decide q h rd = (e0, dc)" by (cases "decide q h rd")
  have fw0: "frames_written e0 = []" using frames_written_decide [of q h rd] dc by simp
  have ex: "fst (execute (Finished n) (Command name arg)) = n"
    by (simp add: execute_def Start_def Wait_def Command_def)
  show ?thesis
  proof (cases dc)
    case Quit
    with assms dc show ?thesis by (simp add: iteration_def)
  next
    case (Crash p)
    with assms dc show ?thesis by (simp add: iteration_def)
  next
    case (RunCommand h1 c)
    obtain st e1 c' where x: "execute (os_run w) c = (st, e1, c')"
      by (cases "execute (os_run w) c") auto
    obtain e2 h2 where r: "respond d w (h1\<lparr>command := Some c'\<rparr>) st = (e2, h2)"
      by (cases "respond d w (h1\<lparr>command := Some c'\<rparr>) st")
    have fw1: "frames_written e1 = []" using frames_written_execute [of "os_run w" c] x by simp
    have fw2: "frames_written e2 = [fmtC st @ fmtC d]" and s2: "status h2 = st"
      using frames_written_respond [of d w "h1\<lparr>command := Some c'\<rparr>" st] r by simp_all
    from assms dc RunCommand x r have "ev = e0 @ e1 @ e2" and "h' = h2"
      by (simp_all add: iteration_def)
    with fw0 fw1 fw2 s2 x dc RunCommand ex show ?thesis
      by (simp add: frames_written_append fmtC_one_byte)
  next
    case (QueryStatus h1)
    obtain e2 h2 where r: "respond d w h1 (isActiveWireGuard (wg_show w)) = (e2, h2)"
      by (cases "respond d w h1 (isActiveWireGuard (wg_show w))")
    have fw2: "frames_written e2 = [fmtC (isActiveWireGuard (wg_show w)) @ fmtC d]"
      and s2: "status h2 = isActiveWireGuard (wg_show w)"
      using frames_written_respond [of d w h1 "isActiveWireGuard (wg_show w)"] r by simp_all
    from assms dc QueryStatus r have "ev = e0 @ [WgShow] @ e2" and "h' = h2"
      by (simp_all add: iteration_def)
    with fw0 fw2 s2 dc QueryStatus ex show ?thesis
      by (simp add: frames_written_append fmtC_one_byte isActiveWireGuard_def)
  next
    case (Reject h1)
    obtain e2 h2 where r: "respond d w h1 (- 1) = (e2, h2)"
      by (cases "respond d w h1 (- 1)")
    have fw2: "frames_written e2 = [fmtC (- 1) @ fmtC d]" and s2: "status h2 = - 1"
      using frames_written_respond [of d w h1 "- 1"] r by simp_all
    from assms dc Reject r have "ev = e0 @ e2" and "h' = h2"
      by (simp_all add: iteration_def)
    with fw0 fw2 s2 dc Reject ex show ?thesis
      by (simp add: frames_written_append)
  qed
qed

theorem response_frame_witness:
  "iteration ''quit'' 10 \<lparr>os_run = Finished 2, wg_show = [], write_err = None\<rparr> new_handler
       (''connect cfg'', None)
     = ([StartProcess [''wg-quick'', ''up'', ''cfg''], WriteFrame [CHR 0x02, CHR 0x0A]],
        Next \<lparr>command = Some \<lparr>Args = [''wg-quick'', ''up'', ''cfg''], Process = True,
                               ProcessState = True\<rparr>,
              knownActions = [''connect'', ''disconnect''], status = 2, config = ''cfg''\<rparr>)
   \<and> frames_written [StartProcess [''wg-quick'', ''up'', ''cfg''], WriteFrame [CHR 0x02, CHR 0x0A]]
       = [fmtC 2 @ fmtC 10]
   \<and> fmtC 2 = [char_of (2::int)]"
proof -
  have it: "iteration ''quit'' 10 \<lparr>os_run = Finished 2, wg_show = [], write_err = None\<rparr> new_handler
       (''connect cfg'', None)
     = ([StartProcess [''wg-quick'', ''up'', ''cfg''], WriteFrame [CHR 0x02, CHR 0x0A]],
        Next \<lparr>command = Some \<lparr>Args = [''wg-quick'', ''up'', ''cfg''], Process = True,
                               ProcessState = True\<rparr>,
              knownActions = [''connect'', ''disconnect''], status = 2, config = ''cfg''\<rparr>)"
    by code_simp
  show ?thesis
    using it response_frame [OF it, of 0 "''wg-quick''" "[]"] by simp
qed

text \<open>
  C6. When the tool cannot be started, \<open>execute\<close> logs the error of \<open>Start\<close>, then the
  error of \<open>Wait\<close> on a command not started, and returns 0, the value it returns for a
  process that ends with exit status 0, and not -1.
\<close>

theorem execute_cannot_start:
  assumes "\<not> Process c"
  shows "execute (CannotStart e) c = (0, [LogErr e, LogErr ''exec: not started''], c)
       \<and> fst (execute (CannotStart e) c) = fst (execute (Finished 0) c)
       \<and> fst (execute (CannotStart e) c) \<noteq> - 1"
  using assms by (simp add: execute_def Start_def Wait_def)

theorem execute_cannot_start_witness:
  "\<not> Process (Command ''wg-quick'' [''up'', ''fvpn0''])
   \<and> execute (CannotStart ''exec: not found'') (Command ''wg-quick'' [''up'', ''fvpn0''])
       = (0, [LogErr ''exec: not found'', LogErr ''exec: not started''],
          Command ''wg-quick'' [''up'', ''fvpn0''])"
proof -
  have h: "\<not> Process (Command ''wg-quick'' [''up'', ''fvpn0''])" by (simp add: Command_def)
  show ?thesis
    using h execute_cannot_start [OF h, of "''exec: not found''"] by simp
qed

lemma iteration_read_error:
  "iteration q d w h (content, Some e) =
     (LogErr (Error e) # fst (iteration q d w h (content, None)),
      snd (iteration q d w h (content, None)))"
  unfolding iteration_def decide_log [of q h content e]
  by (cases "decide q h (content, None)"; cases "snd (decide q h (content, None))")
     (auto split: prod.split)

lemma iteration_outcome_any_error:
  "snd (iteration q d w h (content, err)) = snd (iteration q d w h (content, None))"
  by (cases err) (simp_all add: iteration_read_error)

lemma decide_Quit_iff: "(snd (decide q h (content, err)) = Quit) = (content = q)"
  by (auto simp add: decide_def Let_def split: list.split option.split)

lemma iteration_Break_iff: "(snd (iteration q d w h (content, err)) = Break) = (content = q)"
proof -
  obtain e0 dc where dc: "decide q h (content, err) = (e0, dc)"
    by (cases "decide q h (content, err)")
  have "(snd (iteration q d w h (content, err)) = Break) = (dc = Quit)"
    using dc by (cases dc) (auto simp add: iteration_def split: prod.split)
  with decide_Quit_iff [of q h content err] dc show ?thesis by simp
qed

lemma CloseConn_decide: "CloseConn \<notin> set (fst (decide q h rd))"
  by (auto simp add: decide_def Let_def split: list.split option.split)

lemma CloseConn_execute: "CloseConn \<notin> set (fst (snd (execute p c)))"
  by (auto simp add: execute_def Start_def Wait_def Let_def
      split: prod.split option.split wait_error.split proc.split if_split)

lemma CloseConn_respond: "CloseConn \<notin> set (fst (respond d w h st))"
  by (auto simp add: respond_def Let_def split: option.split)

lemma CloseConn_iteration: "CloseConn \<notin> set (fst (iteration q d w h rd))"
proof -
  obtain e0 dc where dc: "decide q h rd = (e0, dc)" by (cases "decide q h rd")
  have n0: "CloseConn \<notin> set e0" using CloseConn_decide [of q h rd] dc by simp
  show ?thesis
  proof (cases dc)
    case Quit
    with dc n0 show ?thesis by (simp add: iteration_def)
  next
    case (Crash p)
    with dc n0 show ?thesis by (simp add: iteration_def)
  next
    case (RunCommand h1 c)
    obtain st e1 c' where x: "execute (os_run w) c = (st, e1, c')"
      by (cases "execute (os_run w) c") auto
    obtain e2 h2 where r: "respond d w (h1\<lparr>command := Some c'\<rparr>) st = (e2, h2)"
      by (cases "respond d w (h1\<lparr>command := Some c'\<rparr>) st")
    have n1: "CloseConn \<notin> set e1" using CloseConn_execute [of "os_run w" c] x by simp
    have n2: "CloseConn \<notin> set e2"
      using CloseConn_respond [of d w "h1\<lparr>command := Some c'\<rparr>" st] r by simp
    from dc RunCommand x r n0 n1 n2 show ?thesis by (simp add: iteration_def)
  next
    case (QueryStatus h1)
    obtain e2 h2 where r: "respond d w h1 (isActiveWireGuard (wg_show w)) = (e2, h2)"
      by (cases "respond d w h1 (isActiveWireGuard (wg_show w))")
    have n2: "CloseConn \<notin> set e2"
      using CloseConn_respond [of d w h1 "isActiveWireGuard (wg_show w)"] r by simp
    from dc QueryStatus r n0 n2 show ?thesis by (simp add: iteration_def)
  next
    case (Reject h1)
    obtain e2 h2 where r: "respond d w h1 (- 1) = (e2, h2)"
      by (cases "respond d w h1 (- 1)")
    have n2: "CloseConn \<notin> set e2" using CloseConn_respond [of d w h1 "- 1"] r by simp
    from dc Reject r n0 n2 show ?thesis by (simp add: iteration_def)
  qed
qed

lemma serve_read_error_head:
  "serve q d h ((w, content, Some e) # rest) =
     (LogErr (Error e) # fst (serve q d h ((w, content, None) # rest)),
      snd (serve q d h ((w, content, None) # rest)))"
  unfolding serve.simps iteration_read_error [of q d w h content e]
  by (cases "iteration q d w h (content, None)"; cases "snd (iteration q d w h (content, None))")
     (auto split: prod.split)

lemma serve_ending_without_errors:
  "snd (serve q d h frames) = snd (serve q d h (map (\<lambda>(w, c, e). (w, c, None)) frames))"
proof (induction frames arbitrary: h)
  case Nil
  show ?case by simp
next
  case (Cons f frames)
  obtain w c e where f: "f = (w, c, e)" by (cases f)
  obtain ev out where it: "iteration q d w h (c, e) = (ev, out)"
    by (cases "iteration q d w h (c, e)")
  obtain ev' where it': "iteration q d w h (c, None) = (ev', out)"
    using iteration_outcome_any_error [of q d w h c e] it
    by (cases "iteration q d w h (c, None)") simp
  show ?case
  proof (cases out)
    case Break
    with f it it' show ?thesis by simp
  next
    case (Panic p)
    with f it it' show ?thesis by simp
  next
    case (Next h')
    with f it it' Cons.IH [of h'] show ?thesis
      by (simp add: case_prod_beta)
  qed
qed

lemma serve_CloseConn_iff:
  "(CloseConn \<in> set (fst (serve q d h frames)))
     = (snd (serve q d h frames) = Returned \<or> (\<exists>p. snd (serve q d h frames) = Panicked p))"
proof (induction frames arbitrary: h)
  case Nil
  show ?case by simp
next
  case (Cons f frames)
  obtain w c e where f: "f = (w, c, e)" by (cases f)
  obtain ev out where it: "iteration q d w h (c, e) = (ev, out)"
    by (cases "iteration q d w h (c, e)")
  have n: "CloseConn \<notin> set ev" using CloseConn_iteration [of q d w h "(c, e)"] it by simp
  show ?case
  proof (cases out)
    case Break
    with f it show ?thesis by simp
  next
    case (Panic p)
    with f it show ?thesis by simp
  next
    case (Next h')
    with f it n Cons.IH [of h'] show ?thesis
      by (simp add: case_prod_beta)
  qed
qed

lemma serve_Returned_sentinel:
  "snd (serve q d h frames) = Returned \<Longrightarrow> q \<in> set (map (\<lambda>(w, c, e). c) frames)"
proof (induction frames arbitrary: h)
  case Nil
  then show ?case by simp
next
  case (Cons f frames)
  obtain w c e where f: "f = (w, c, e)" by (cases f)
  obtain ev out where it: "iteration q d w h (c, e) = (ev, out)"
    by (cases "iteration q d w h (c, e)")
  show ?case
  proof (cases out)
    case Break
    with it iteration_Break_iff [of q d w h c e] have "c = q" by simp
    with f show ?thesis by simp
  next
    case (Panic p)
    with Cons.prems f it show ?thesis by simp
  next
    case (Next h')
    with Cons.prems f it have "snd (serve q d h' frames) = Returned"
      by (simp add: case_prod_beta)
    from Cons.IH [OF this] show ?thesis by simp
  qed
qed

text \<open>
  C7, counterexample to the claim as stated. With the error of a connection reset and the
  content \<open>status\<close> the handler answers and waits for the next frame: it has not closed
  the connection. With no token in the content, the malformed-frame error and the
  connection reset end in the same way, the panic of the index.
\<close>

theorem read_errors_not_told_apart:
  "handleRequest ''quit'' 10
      [(\<lparr>os_run = Finished 0, wg_show = [], write_err = None\<rparr>, ''status'', Some (IOError ''connection reset by peer''))]
     = ([LogErr ''connection reset by peer'', WgShow, WriteFrame [CHR 0x00, CHR 0x0A]],
        Reading (new_handler\<lparr>knownActions := [''connect'', ''disconnect'']\<rparr>))
   \<and> handleRequest ''quit'' 10
      [(\<lparr>os_run = Finished 0, wg_show = [], write_err = None\<rparr>, '''', Some (DecodeError ''malformed frame''))]
     = ([LogErr ''malformed frame'', CloseConn], Panicked IndexOutOfRange)
   \<and> handleRequest ''quit'' 10
      [(\<lparr>os_run = Finished 0, wg_show = [], write_err = None\<rparr>, '''', Some (IOError ''connection reset by peer''))]
     = ([LogErr ''connection reset by peer'', CloseConn], Panicked IndexOutOfRange)"
  by code_simp

text \<open>
  C7, as amended. A read error, whatever its kind, adds one line to the log of the handler
  and changes nothing else: the handler then goes on as it does with the same content and
  no error, and how it ends does not depend on the errors of any of its frames. An
  iteration leaves the loop by \<open>break\<close> exactly when the content is the sentinel; a
  handler that has returned has met the sentinel among its frames; and the connection is
  closed exactly when the handler has returned or has panicked.
\<close>

theorem handler_read_error_only_logged:
  "serve q d h ((w, content, Some e) # rest) =
     (LogErr (Error e) # fst (serve q d h ((w, content, None) # rest)),
      snd (serve q d h ((w, content, None) # rest)))
   \<and> snd (serve q d h frames) = snd (serve q d h (map (\<lambda>(w, c, e). (w, c, None)) frames))
   \<and> (snd (iteration q d w h (content, err)) = Break) = (content = q)
   \<and> (snd (serve q d h frames) = Returned \<longrightarrow> q \<in> set (map (\<lambda>(w, c, e). c) frames))
   \<and> (CloseConn \<in> set (fst (serve q d h frames)))
       = (snd (serve q d h frames) = Returned \<or> (\<exists>p. snd (serve q d h frames) = Panicked p))"
  using serve_read_error_head [of q d h w content e rest]
    serve_ending_without_errors [of q d h frames]
    iteration_Break_iff [of q d w h content err]
    serve_Returned_sentinel [of q d h frames]
    serve_CloseConn_iff [of q d h frames]
  by blast

theorem handler_read_error_only_logged_witness:
  "snd (serve ''quit'' 10 new_handler
          [(\<lparr>os_run = Finished 0, wg_show = [], write_err = None\<rparr>, ''status'',
            Some (IOError ''connection reset by peer'')),
           (\<lparr>os_run = Finished 0, wg_show = [], write_err = None\<rparr>, ''quit'', None)])
     = Returned
   \<and> ''quit'' \<in> set (map (\<lambda>(w, c, e). c)
          [(\<lparr>os_run = Finished 0, wg_show = [], write_err = None\<rparr>, ''status'',
            Some (IOError ''connection reset by peer'')),
           (\<lparr>os_run = Finished 0, wg_show = [], write_err = None\<rparr>, ''quit'', None)])
   \<and> CloseConn \<in> set (fst (serve ''quit'' 10 new_handler
          [(\<lparr>os_run = Finished 0, wg_show = [], write_err = None\<rparr>, ''status'',
            Some (IOError ''connection reset by peer'')),
           (\<lparr>os_run = Finished 0, wg_show = [], write_err = None\<rparr>, ''quit'', None)]))"
proof -
  let ?w = "\<lparr>os_run = Finished 0, wg_show = [], write_err = None\<rparr>"
  let ?frames = "[(?w, ''status'', Some (IOError ''connection reset by peer'')),
                  (?w, ''quit'', None)]"
  have r: "snd (serve ''quit'' 10 new_handler ?frames) = Returned"
    by code_simp
  show ?thesis
    using r handler_read_error_only_logged
      [where q = "''quit''" and d = 10 and h = new_handler and frames = ?frames]
    by blast
qed



text \<open>
  C9. At the failing input, a content that is not the sentinel and has no token (the empty
  string, or white space only), the iteration panics: \<open>request[0]\<close> indexes the empty
  slice.
\<close>

theorem empty_payload_panics:
  assumes "content \<noteq> q" and "Fields content = []"
  shows "iteration q d w h (content, err) =
           ((case err of Some e \<Rightarrow> [LogErr (Error e)] | None \<Rightarrow> []), Panic IndexOutOfRange)"
  using assms by (simp add: iteration_def decide_def Let_def)

theorem empty_payload_panics_witness:
  "'''' \<noteq> ''quit'' \<and> Fields '''' = []
   \<and> iteration ''quit'' 10 \<lparr>os_run = Finished 0, wg_show = [], write_err = None\<rparr> new_handler ('''', None)
       = ([], Panic IndexOutOfRange)
   \<and> ''   '' \<noteq> ''quit'' \<and> Fields ''   '' = []
   \<and> iteration ''quit'' 10 \<lparr>os_run = Finished 0, wg_show = [], write_err = None\<rparr> new_handler (''   '', None)
       = ([], Panic IndexOutOfRange)"
proof -
  have h1: "'''' \<noteq> ''quit''" by simp
  have f1: "Fields '''' = []" by code_simp
  have h2: "''   '' \<noteq> ''quit''" by simp
  have f2: "Fields ''   '' = []" by code_simp
  show ?thesis
    using h1 f1 h2 f2
      empty_payload_panics [OF h1 f1, of 10 "\<lparr>os_run = Finished 0, wg_show = [], write_err = None\<rparr>" new_handler None]
      empty_payload_panics [OF h2 f2, of 10 "\<lparr>os_run = Finished 0, wg_show = [], write_err = None\<rparr>" new_handler None]
    by simp
qed

text \<open>
  C1, counterexample to the claim as stated. Two connections are accepted and each
  receives a bring-up frame: after the second frame both handlers are inside \<open>execute\<close>
  with their process running.
\<close>

theorem executions_overlap:
  "in_flight (daemon_run ''quit'' 10
     [Accept, Accept,
      Deliver 0 \<lparr>os_run = Finished 0, wg_show = [], write_err = None\<rparr> (''connect a'', None),
      Deliver 1 \<lparr>os_run = Finished 0, wg_show = [], write_err = None\<rparr> (''connect b'', None)])
   = [0, 1]"
  by code_simp

text \<open>
  C1, as amended. No lock is taken. When a bring-up or bring-down frame reaches a handler
  waiting in \<open>Read\<close> and its process starts, that handler is executing from then on and
  every handler that was executing still is, whatever the other connections do. When a
  status query reaches it, it is answered at once and the handlers executing stay so.
\<close>

theorem no_execution_lock:
  assumes "i < length cs" and "cs ! i = Awaiting h"
  shows "(snd (decide q h rd) = RunCommand h' c \<and> fst (Start (os_run w) c) = None \<longrightarrow>
            daemon_step q d (Serving cs) (Deliver i w rd) = Serving (cs[i := Executing w h rd])
          \<and> set (in_flight (daemon_step q d (Serving cs) (Deliver i w rd)))
              = insert i (set (in_flight (Serving cs))))
       \<and> (snd (decide q h rd) = QueryStatus h' \<longrightarrow>
            daemon_step q d (Serving cs) (Deliver i w rd)
              = Serving (cs[i := Awaiting (h'\<lparr>status := isActiveWireGuard (wg_show w)\<rparr>)])
          \<and> set (in_flight (daemon_step q d (Serving cs) (Deliver i w rd)))
              = set (in_flight (Serving cs)))"
proof (intro conjI impI)
  assume a: "snd (decide q h rd) = RunCommand h' c \<and> fst (Start (os_run w) c) = None"
  with assms show s: "daemon_step q d (Serving cs) (Deliver i w rd)
                        = Serving (cs[i := Executing w h rd])"
    by (simp add: daemon_step_def)
  show "set (in_flight (daemon_step q d (Serving cs) (Deliver i w rd)))
              = insert i (set (in_flight (Serving cs)))"
    unfolding s using assms(1) by (rule in_flight_update_executing)
next
  assume a: "snd (decide q h rd) = QueryStatus h'"
  obtain e0 where dc: "decide q h rd = (e0, QueryStatus h')"
    using a by (cases "decide q h rd") auto
  have it: "snd (iteration q d w h rd) = Next (h'\<lparr>status := isActiveWireGuard (wg_show w)\<rparr>)"
    using dc by (simp add: iteration_def respond_def Let_def)
  with assms a show s: "daemon_step q d (Serving cs) (Deliver i w rd)
              = Serving (cs[i := Awaiting (h'\<lparr>status := isActiveWireGuard (wg_show w)\<rparr>)])"
    by (simp add: daemon_step_def finish_def)
  show "set (in_flight (daemon_step q d (Serving cs) (Deliver i w rd)))
              = set (in_flight (Serving cs))"
    unfolding s using assms by (rule in_flight_update_awaiting)
qed

theorem no_execution_lock_witness:
  "(1::nat) < length [Executing \<lparr>os_run = Finished 0, wg_show = [], write_err = None\<rparr> new_handler (''connect a'', None), Awaiting new_handler]
   \<and> [Executing \<lparr>os_run = Finished 0, wg_show = [], write_err = None\<rparr> new_handler (''connect a'', None), Awaiting new_handler] ! 1 = Awaiting new_handler
   \<and> snd (decide ''quit'' new_handler (''connect b'', None))
       = RunCommand (new_handler\<lparr>knownActions := [''connect'', ''disconnect''], config := ''b''\<rparr>)
           (Command ''wg-quick'' [''up'', ''b''])
   \<and> fst (Start (Finished 0) (Command ''wg-quick'' [''up'', ''b''])) = None
   \<and> set (in_flight (daemon_step ''quit'' 10
        (Serving [Executing \<lparr>os_run = Finished 0, wg_show = [], write_err = None\<rparr> new_handler (''connect a'', None), Awaiting new_handler])
        (Deliver 1 \<lparr>os_run = Finished 0, wg_show = [], write_err = None\<rparr> (''connect b'', None))))
       = {0, 1}
   \<and> snd (decide ''quit'' new_handler (''status'', None))
       = QueryStatus (new_handler\<lparr>knownActions := [''connect'', ''disconnect'']\<rparr>)
   \<and> set (in_flight (daemon_step ''quit'' 10
        (Serving [Executing \<lparr>os_run = Finished 0, wg_show = [], write_err = None\<rparr> new_handler (''connect a'', None), Awaiting new_handler])
        (Deliver 1 \<lparr>os_run = Finished 0, wg_show = [], write_err = None\<rparr> (''status'', None))))
       = {0}"
proof -
  let ?w = "\<lparr>os_run = Finished 0, wg_show = [], write_err = None\<rparr>"
  let ?cs = "[Executing ?w new_handler (''connect a'', None), Awaiting new_handler]"
  have l: "(1::nat) < length ?cs" by simp
  have a: "?cs ! 1 = Awaiting new_handler" by simp
  have d1: "snd (decide ''quit'' new_handler (''connect b'', None))
       = RunCommand (new_handler\<lparr>knownActions := [''connect'', ''disconnect''], config := ''b''\<rparr>)
           (Command ''wg-quick'' [''up'', ''b''])"
    by code_simp
  have s1: "fst (Start (os_run ?w) (Command ''wg-quick'' [''up'', ''b''])) = None"
    by (simp add: Start_def Command_def)
  have d2: "snd (decide ''quit'' new_handler (''status'', None))
       = QueryStatus (new_handler\<lparr>knownActions := [''connect'', ''disconnect'']\<rparr>)"
    by code_simp
  have i0: "set (in_flight (Serving ?cs)) = {0}"
    by (simp add: in_flight_def)
  have t1: "set (in_flight (daemon_step ''quit'' 10 (Serving ?cs)
                (Deliver 1 ?w (''connect b'', None))))
            = insert 1 (set (in_flight (Serving ?cs)))"
    using d1 s1
      no_execution_lock [OF l a, of "''quit''" "(''connect b'', None)"
        "new_handler\<lparr>knownActions := [''connect'', ''disconnect''], config := ''b''\<rparr>"
        "Command ''wg-quick'' [''up'', ''b'']" ?w 10]
    by blast
  have t2: "set (in_flight (daemon_step ''quit'' 10 (Serving ?cs)
                (Deliver 1 ?w (''status'', None))))
            = set (in_flight (Serving ?cs))"
    using d2
      no_execution_lock [OF l a, of "''quit''" "(''status'', None)"
        "new_handler\<lparr>knownActions := [''connect'', ''disconnect'']\<rparr>"
        "Command ''wg-quick'' [''up'', ''b'']" ?w 10]
    by blast
  have s1': "fst (Start (Finished 0) (Command ''wg-quick'' [''up'', ''b''])) = None"
    using s1 by simp
  show ?thesis
    unfolding t1 t2 i0 using l a d1 s1' d2 by (simp add: insert_commute)
qed

end
